theory Spec2Isabelle
  imports Main
begin

section \<open>Field shape trees\<close>

text \<open>
  The transformer generator (\<^verbatim>\<open>src/dist/transformer-generator.js\<close>) walks plain
  JavaScript objects whose values are either strings (a scalar type designation such
  as \<^verbatim>\<open>'String'\<close> or \<^verbatim>\<open>'AWSJSON'\<close>) or nested objects of the same kind.
  \<^verbatim>\<open>Object.entries\<close> lists the entries of such an object in insertion order, so an
  object is modelled as an association list; its keys are the annotated field names.
  A JavaScript object has no duplicate keys; no definition below relies on that.
  Strings are ASCII (GraphQL names are), so \<^verbatim>\<open>length\<close> and \<^verbatim>\<open>substring\<close> count
  characters as the source does.
\<close>

datatype shape =
    Scalar string
  | Object "(string \<times> shape) list"

type_synonym fields = "(string \<times> shape) list"

text \<open>
  A \<^verbatim>\<open>fields\<close> property may be missing: the source tests \<^verbatim>\<open>!fields\<close> and
  \<^verbatim>\<open>fields || {}\<close>. A missing (falsy) value is \<open>None\<close>. The record
  selector for the \<^verbatim>\<open>fields\<close> property is written \<open>fields'\<close>.
\<close>

record outputType =
  fieldName :: string
  typeName :: string
  fields' :: "fields option"

text \<open>
  The variables mapping: variable name to the \<^verbatim>\<open>fields\<close> property of
  \<^verbatim>\<open>variablesType[field]\<close>, the only property the source reads. The mapping itself
  may be \<^verbatim>\<open>null\<close>/\<^verbatim>\<open>undefined\<close> (the source tests \<^verbatim>\<open>variablesType && ...\<close>).
\<close>

type_synonym variablesType = "(string \<times> fields option) list"

datatype error = TypeError

section \<open>String helpers of the JavaScript runtime\<close>

definition nl :: string where
  "nl = [CHR 0x0A]"

text \<open>\<^verbatim>\<open>s.includes(search)\<close>: \<open>search\<close> occurs in \<open>s\<close> as a contiguous substring.\<close>

fun str_includes :: "string \<Rightarrow> string \<Rightarrow> bool" where
  "str_includes [] search = (search = [])"
| "str_includes (c # cs) search = (take (length search) (c # cs) = search \<or> str_includes cs search)"

text \<open>\<^verbatim>\<open>s.substring(0, s.length - n)\<close>; a negative end is clamped to 0.\<close>

definition dropEnd :: "nat \<Rightarrow> string \<Rightarrow> string" where
  "dropEnd n s = take (length s - n) s"

text \<open>\<^verbatim>\<open>lines.join(sep)\<close>.\<close>

fun join :: "string \<Rightarrow> string list \<Rightarrow> string" where
  "join sep [] = []"
| "join sep [x] = x"
| "join sep (x # y # ys) = x @ sep @ join sep (y # ys)"

section \<open>generateQueryVariablesSignature\<close>

definition generateQueryVariablesSignature :: "bool \<Rightarrow> string \<Rightarrow> string" where
  "generateQueryVariablesSignature hasRequiredVariables operationVariablesTypes =
     ''variables'' @ (if hasRequiredVariables then '''' else ''?'') @ '': '' @ operationVariablesTypes"

section \<open>transformJsonFields\<close>

text \<open>The locals of the loop body, lines 51--57, as functions of the key \<open>field\<close>.\<close>

definition isMandatory :: "string \<Rightarrow> bool" where
  "isMandatory field = str_includes field ''!''"

definition isArray :: "string \<Rightarrow> bool" where
  "isArray field = str_includes field ''[]''"

definition strippedName :: "string \<Rightarrow> string" where
  "strippedName field =
     (let name1 = (if isMandatory field then dropEnd 1 field else field)
      in (if isArray field then dropEnd 2 name1 else name1))"

definition fieldNameSingular :: "string \<Rightarrow> string" where
  "fieldNameSingular field = dropEnd 1 (strippedName field)"

definition fieldPath :: "string \<Rightarrow> string \<Rightarrow> string" where
  "fieldPath path field = path @ ''.'' @ strippedName field"

fun transformJsonFields :: "fields \<Rightarrow> string \<Rightarrow> string \<Rightarrow> string list" where
  "transformJsonFields [] path transformer = []"
| "transformJsonFields ((field, Object children) # rest) path transformer =
     (if isArray field
      then [strippedName field @ '': '' @ fieldPath path field @ ''?.map(('' @
              fieldNameSingular field @ '') => ({'',
            ''...'' @ fieldNameSingular field @ '',''] @
           transformJsonFields children (fieldNameSingular field @ ''?'') transformer @
           [''})),'']
      else [strippedName field @ '': {'',
            ''...'' @ fieldPath path field @ '',''] @
           transformJsonFields children (fieldPath path field @ ''?'') transformer @
           [''},''])
     @ transformJsonFields rest path transformer"
| "transformJsonFields ((field, Scalar fieldValue) # rest) path transformer =
     (if fieldValue = ''AWSJSON''
      then (if transformer = ''parse''
            then [strippedName field @ '': '' @ fieldPath path field @ '' && JSON.parse('' @
                    fieldPath path field @ '' as unknown as string),'']
            else []) @
           (if transformer = ''stringify''
            then [strippedName field @ '': '' @ fieldPath path field @ '' && JSON.stringify('' @
                    fieldPath path field @ '' as unknown as Record<string, any>),'']
            else [])
      else [])
     @ transformJsonFields rest path transformer"

section \<open>hasJsonFields\<close>

fun hasJsonFields :: "fields option \<Rightarrow> bool" where
  "hasJsonFields None = False"
| "hasJsonFields (Some fs) =
     (length (filter (\<lambda>b. b)
        (map (\<lambda>(field, fieldValue).
                (case fieldValue of
                   Object children \<Rightarrow> hasJsonFields (Some children)
                 | Scalar marker \<Rightarrow> marker = ''AWSJSON''))
          fs)) > 0)"

text \<open>
  \<^verbatim>\<open>hasJsonFields\<close> applied to a whole shape tree. Every call in the source passes
  a \<^verbatim>\<open>fields\<close> property, which is an object or missing, and the recursive call
  passes an object. JavaScript does not prevent a scalar node, a string, from being
  passed: the empty string is falsy, so line 78 returns false; on any other string
  \<^verbatim>\<open>Object.entries\<close> lists its characters, indexed by position, and the callback
  compares each one-character string with \<^verbatim>\<open>'AWSJSON'\<close>.
\<close>

definition hasJsonFieldsTree :: "shape option \<Rightarrow> bool" where
  "hasJsonFieldsTree tree =
     (case tree of
        None \<Rightarrow> False
      | Some (Object children) \<Rightarrow> hasJsonFields (Some children)
      | Some (Scalar str) \<Rightarrow>
          (if str = [] then False
           else length (filter (\<lambda>b. b) (map (\<lambda>character. [character] = ''AWSJSON'') str)) > 0))"

section \<open>generateOutputTransformer\<close>

text \<open>The local \<^verbatim>\<open>comment\<close> of lines 10--17.\<close>

definition outputComment :: "string \<Rightarrow> string \<Rightarrow> outputType \<Rightarrow> string" where
  "outputComment operationName operationResultType outputType =
     nl @ ''/**'' @ nl @
     ''  * Output transformer function for `'' @ operationName @ ''`.'' @ nl @
     ''  * It extracts the `'' @ fieldName outputType @
       ''` field from the result and transforms it into a `'' @ typeName outputType @
       ''` object.'' @ nl @
     ''  * If the object contains JSON fields, it will automatically JSON parse these fields and return a new object.'' @ nl @
     ''  * If the object does not conatain any JSON fields, it will return the orignal object.'' @ nl @
     ''  * @param data '' @ operationResultType @ '' - The data returned from the GraphQL server'' @ nl @
     ''  * @returns '' @ typeName outputType @ '' - The transformed data'' @ nl @
     ''  */''"

text \<open>
  The local \<^verbatim>\<open>implementation\<close> of lines 18--20. \<^verbatim>\<open>transformJsonFields\<close> applies
  \<^verbatim>\<open>Object.entries\<close> to its first argument, which raises a \<^verbatim>\<open>TypeError\<close> on
  \<^verbatim>\<open>undefined\<close>.
\<close>

definition outputImplementation :: "string \<Rightarrow> string \<Rightarrow> outputType \<Rightarrow> error + string" where
  "outputImplementation operationName operationResultType outputType =
     (let head = ''export const '' @ operationName @ ''Output = ({ '' @ fieldName outputType @
                 '' }: '' @ operationResultType @ '') => ''
      in if hasJsonFields (fields' outputType)
         then (case fields' outputType of
                 None \<Rightarrow> Inl TypeError
               | Some fs \<Rightarrow>
                   Inr (head @ fieldName outputType @ '' && ({...'' @ fieldName outputType @ '', '' @
                        join nl (transformJsonFields fs (fieldName outputType) ''parse'') @
                        '' }) as '' @ typeName outputType @ '';''))
         else Inr (head @ fieldName outputType @ '' as '' @ typeName outputType @ '';''))"

definition generateOutputTransformer ::
  "'node \<Rightarrow> string \<Rightarrow> string \<Rightarrow> string \<Rightarrow> bool \<Rightarrow> outputType \<Rightarrow> error + string" where
  "generateOutputTransformer node operationName operationVariablesTypes operationResultType
       hasRequiredVariables outputType =
     (case outputImplementation operationName operationResultType outputType of
        Inl e \<Rightarrow> Inl e
      | Inr implementation \<Rightarrow>
          Inr (nl @ outputComment operationName operationResultType outputType @ nl @ implementation))"

section \<open>generateInputTransformer\<close>

text \<open>The local \<^verbatim>\<open>comment\<close> of lines 28--36.\<close>

definition inputComment :: "string \<Rightarrow> string \<Rightarrow> bool \<Rightarrow> string" where
  "inputComment operationName operationVariablesTypes hasVariables =
     nl @ ''/**'' @ nl @
     ''  * Input transformer function for `'' @ operationName @ ''`.'' @ nl @
     ''  * It transforms the fields of the variables into JSON strings.'' @ nl @
     ''  * If the variables contain JSON fields, it will automatically JSON stringify these fields and return a new `variables` object.'' @ nl @
     ''  * If the variables do not conatain any JSON fields, it will return the orignal `variables` object.'' @ nl @
     ''  * If no variables are defined, the function returns `undefined`.'' @ nl @
     ''  * '' @ (if hasVariables
                 then ''@param variables `'' @ operationVariablesTypes @ ''` - The original variables''
                 else '''') @ nl @
     ''  * '' @ (if hasVariables
                 then ''@returns `'' @ operationVariablesTypes @ ''` - The transformed variables''
                 else ''@returns `undefined`'') @ nl @
     ''  */''"

text \<open>
  The per-variable entry of line 41. The array returned by \<^verbatim>\<open>transformJsonFields\<close> is
  interpolated into the template literal directly, so JavaScript converts it with
  \<^verbatim>\<open>Array.prototype.toString\<close>, which joins the elements with a comma.
\<close>

definition variableOverride :: "string \<times> fields option \<Rightarrow> string" where
  "variableOverride = (\<lambda>(field, fs).
     field @ '': { '' @
     join '','' (transformJsonFields (case fs of None \<Rightarrow> [] | Some f \<Rightarrow> f)
                  (''variables.'' @ field) ''stringify'') @
     '' },'')"

text \<open>The local \<^verbatim>\<open>implementation\<close> of lines 37--44, for a mapping that is an object.\<close>

definition inputImplementation :: "string \<Rightarrow> string \<Rightarrow> bool \<Rightarrow> variablesType \<Rightarrow> string" where
  "inputImplementation operationName operationVariablesTypes hasRequiredVariables vs =
     (let signature = generateQueryVariablesSignature hasRequiredVariables operationVariablesTypes;
          hasVariables = (length vs > 0);
          hasJson = list_ex (\<lambda>(field, fs). hasJsonFields fs) vs
      in if hasVariables
         then ''export const '' @ operationName @ ''Input = ('' @ signature @ '') => '' @
              (if hasJson
               then ''({...variables, '' @
                    join nl (map variableOverride (filter (\<lambda>(field, fs). hasJsonFields fs) vs)) @
                    '' }) as '' @ operationVariablesTypes
               else ''variables as '' @ operationVariablesTypes) @ '';''
         else ''export const '' @ operationName @ ''Input = () => undefined;'')"

text \<open>
  Line 26 guards \<^verbatim>\<open>Object.keys(variablesType)\<close> with \<^verbatim>\<open>variablesType &&\<close>; line 27
  calls it unguarded, which raises a \<^verbatim>\<open>TypeError\<close> on \<^verbatim>\<open>null\<close> and
  \<^verbatim>\<open>undefined\<close> before any text is built.
\<close>

definition generateInputTransformer ::
  "'node \<Rightarrow> string \<Rightarrow> string \<Rightarrow> string \<Rightarrow> bool \<Rightarrow> variablesType option \<Rightarrow> error + string" where
  "generateInputTransformer node operationName operationVariablesTypes operationResultType
       hasRequiredVariables variablesType =
     (case variablesType of
        None \<Rightarrow> Inl TypeError
      | Some vs \<Rightarrow>
          Inr (nl @ inputComment operationName operationVariablesTypes (length vs > 0) @ nl @
               inputImplementation operationName operationVariablesTypes hasRequiredVariables vs))"

section \<open>Notions used to state the properties\<close>

text \<open>
  The callback of \<^verbatim>\<open>hasJsonFields\<close> (lines 81--88), applied to one entry's value: the
  detector's verdict on a single node of the tree, scalar or object.
\<close>

definition fieldValueHasJson :: "shape \<Rightarrow> bool" where
  "fieldValueHasJson fieldValue =
     (case fieldValue of
        Object children \<Rightarrow> hasJsonFields (Some children)
      | Scalar marker \<Rightarrow> marker = ''AWSJSON'')"

text \<open>The markers of the scalar leaves reachable from a node, left to right.\<close>

fun scalarLeaves :: "shape \<Rightarrow> string list" where
  "scalarLeaves (Scalar marker) = [marker]"
| "scalarLeaves (Object children) = concat (map (\<lambda>(name, child). scalarLeaves child) children)"

text \<open>
  Modelled from the spec: the annotated names produced by the type resolver, which is
  not among the sources. A base field name is followed by the array marker \<^verbatim>\<open>[]\<close>
  when the field is list-valued and then by the mandatory marker \<^verbatim>\<open>!\<close> when it is
  non-null. A base name is plain when it contains neither marker itself (GraphQL
  names consist of letters, digits and underscores).
\<close>

definition annotatedName :: "string \<Rightarrow> bool \<Rightarrow> bool \<Rightarrow> string" where
  "annotatedName base array mandatory =
     base @ (if array then ''[]'' else '''') @ (if mandatory then ''!'' else '''')"

definition plainName :: "string \<Rightarrow> bool" where
  "plainName base = (\<not> str_includes base ''!'' \<and> \<not> str_includes base ''[]'')"

text \<open>
  Toggling the mandatory marker: \<open>unmarked\<close> removes one trailing \<^verbatim>\<open>!\<close> from a key,
  \<open>dropMandatory\<close> does so for every key of a tree. Two trees that differ only in
  which keys carry the trailing marker have the same image under \<open>dropMandatory\<close>.
  A key is well formed when the \<^verbatim>\<open>!\<close> occurs nowhere but at its end.
\<close>

definition unmarked :: "string \<Rightarrow> string" where
  "unmarked field = (if field \<noteq> [] \<and> last field = CHR ''!'' then butlast field else field)"

fun dropMandatory :: "fields \<Rightarrow> fields" where
  "dropMandatory [] = []"
| "dropMandatory ((field, Object children) # rest) =
     (unmarked field, Object (dropMandatory children)) # dropMandatory rest"
| "dropMandatory ((field, Scalar marker) # rest) =
     (unmarked field, Scalar marker) # dropMandatory rest"

definition markedAtEndOnly :: "string \<Rightarrow> bool" where
  "markedAtEndOnly field = (\<not> str_includes (unmarked field) ''!'')"

fun keysWellFormed :: "fields \<Rightarrow> bool" where
  "keysWellFormed [] = True"
| "keysWellFormed ((field, Object children) # rest) =
     (markedAtEndOnly field \<and> keysWellFormed children \<and> keysWellFormed rest)"
| "keysWellFormed ((field, Scalar marker) # rest) =
     (markedAtEndOnly field \<and> keysWellFormed rest)"

text \<open>Renaming every key of a tree, at every depth.\<close>

fun renameKeys :: "(string \<Rightarrow> string) \<Rightarrow> fields \<Rightarrow> fields" where
  "renameKeys f [] = []"
| "renameKeys f ((field, Object children) # rest) =
     (f field, Object (renameKeys f children)) # renameKeys f rest"
| "renameKeys f ((field, Scalar marker) # rest) =
     (f field, Scalar marker) # renameKeys f rest"

section \<open>The detector\<close>

text \<open>
  The recursive equation of the detector rewrites inside its own right-hand side, so it
  is unfolded by hand only.
\<close>

declare hasJsonFields.simps(2) [simp del]

lemma Boolean_filter_Cons:
  "(0 < length (filter (\<lambda>b. b) (map g (x # xs)))) =
     (g x \<or> 0 < length (filter (\<lambda>b. b) (map g xs)))"
  by (simp add: filter_map)

lemma hasJsonFields_Nil: "hasJsonFields (Some []) = False"
  by (subst hasJsonFields.simps) (simp only: list.map filter.simps list.size less_irrefl)

lemma hasJsonFields_Cons:
  "hasJsonFields (Some ((field, fieldValue) # rest)) =
     (fieldValueHasJson fieldValue \<or> hasJsonFields (Some rest))"
proof -
  let ?g = "\<lambda>(field, fieldValue).
              (case fieldValue of
                 Object children \<Rightarrow> hasJsonFields (Some children)
               | Scalar marker \<Rightarrow> marker = ''AWSJSON'')"
  have a: "hasJsonFields (Some ((field, fieldValue) # rest)) =
             (?g (field, fieldValue) \<or> 0 < length (filter (\<lambda>b. b) (map ?g rest)))"
    by (subst hasJsonFields.simps(2)) (rule Boolean_filter_Cons)
  have b: "?g (field, fieldValue) = fieldValueHasJson fieldValue"
    by (simp only: prod.case fieldValueHasJson_def)
  have c: "(0 < length (filter (\<lambda>b. b) (map ?g rest))) = hasJsonFields (Some rest)"
    by (rule hasJsonFields.simps(2) [symmetric])
  show ?thesis
    by (simp only: a b c)
qed

lemma hasJsonFields_children:
  assumes "\<And>field child. (field, child) \<in> set children \<Longrightarrow>
             fieldValueHasJson child = (m \<in> set (scalarLeaves child))"
  shows "hasJsonFields (Some children) = (m \<in> set (scalarLeaves (Object children)))"
  using assms
proof (induction children)
  case Nil
  show ?case by (simp add: hasJsonFields_Nil)
next
  case (Cons entry children)
  obtain field child where entry: "entry = (field, child)" by (cases entry)
  have "fieldValueHasJson child = (m \<in> set (scalarLeaves child))"
    using Cons.prems [of field child] entry by simp
  moreover have "hasJsonFields (Some children) = (m \<in> set (scalarLeaves (Object children)))"
  proof (rule Cons.IH)
    fix f c assume "(f, c) \<in> set children"
    then show "fieldValueHasJson c = (m \<in> set (scalarLeaves c))"
      using Cons.prems [of f c] by simp
  qed
  ultimately show ?case
    unfolding entry hasJsonFields_Cons by simp
qed

lemma fieldValueHasJson_leaves: "fieldValueHasJson T = (''AWSJSON'' \<in> set (scalarLeaves T))"
proof (induction T)
  case (Scalar m)
  show ?case by (auto simp: fieldValueHasJson_def)
next
  case (Object children)
  have "hasJsonFields (Some children) = (''AWSJSON'' \<in> set (scalarLeaves (Object children)))"
  proof (rule hasJsonFields_children)
    fix field child assume "(field, child) \<in> set children"
    then show "fieldValueHasJson child = (''AWSJSON'' \<in> set (scalarLeaves child))"
      using Object.IH [of "(field, child)" child] by simp
  qed
  then show ?case by (simp add: fieldValueHasJson_def)
qed

lemma hasJsonFieldsTree_Scalar: "hasJsonFieldsTree (Some (Scalar str)) = False"
proof -
  have "map (\<lambda>character. [character] = ''AWSJSON'') str = map (\<lambda>character. False) str"
    by simp
  moreover have "filter (\<lambda>b. b) (map (\<lambda>character. False) str) = []"
    by (induction str) simp_all
  ultimately show ?thesis
    by (simp add: hasJsonFieldsTree_def)
qed

text \<open>
  Claim C3. On the children mapping of an object node the detector answers true exactly
  when some scalar leaf reachable from that node carries the marker \<^verbatim>\<open>AWSJSON\<close>,
  and on an absent tree it answers false. Applied to a scalar node itself it answers
  false whatever the marker: a scalar counts only as an entry of an object, where the
  per-entry callback answers true exactly when its marker is \<^verbatim>\<open>AWSJSON\<close>.
\<close>

theorem hasJsonFields_on_shape_trees:
  "hasJsonFieldsTree (Some (Object children)) =
     (''AWSJSON'' \<in> set (scalarLeaves (Object children)))
   \<and> hasJsonFieldsTree (Some (Scalar str)) = False
   \<and> hasJsonFieldsTree None = False
   \<and> hasJsonFields (Some children) = (''AWSJSON'' \<in> set (scalarLeaves (Object children)))
   \<and> hasJsonFields None = False
   \<and> fieldValueHasJson T = (''AWSJSON'' \<in> set (scalarLeaves T))"
  using fieldValueHasJson_leaves [of "Object children"] fieldValueHasJson_leaves [of T]
        hasJsonFieldsTree_Scalar [of str]
  by (simp add: fieldValueHasJson_def hasJsonFieldsTree_def)

text \<open>
  As worded for every shape tree the equivalence fails at the scalar root
  \<^verbatim>\<open>'AWSJSON'\<close>: the leaf carries the marker and the detector answers false.
\<close>

theorem hasJsonFields_scalar_root_counterexample:
  "\<not> (hasJsonFieldsTree (Some (Scalar ''AWSJSON'')) =
        (''AWSJSON'' \<in> set (scalarLeaves (Scalar ''AWSJSON''))))"
  by (simp add: hasJsonFieldsTree_def)

section \<open>The input emitter\<close>

lemma inputImplementation_Nil:
  "inputImplementation operationName operationVariablesTypes hasRequiredVariables [] =
     ''export const '' @ operationName @ ''Input = () => undefined;''"
  unfolding inputImplementation_def Let_def by simp

lemma generateInputTransformer_Nil:
  "generateInputTransformer node operationName operationVariablesTypes operationResultType
     hasRequiredVariables (Some []) =
   Inr (nl @ inputComment operationName operationVariablesTypes False @ nl @
        ''export const '' @ operationName @ ''Input = () => undefined;'')"
  unfolding generateInputTransformer_def
  by (simp only: option.case list.size inputImplementation_Nil less_irrefl)

text \<open>
  Claim C5. For the empty variables mapping the emitted implementation is the
  zero-parameter function returning \<^verbatim>\<open>undefined\<close>, and the whole emitted text is the
  one below: it mentions the operation name only, so it is the same for both values of
  \<open>hasRequiredVariables\<close> (and for every variables type name).
\<close>

theorem generateInputTransformer_empty_variables:
  "generateInputTransformer node operationName operationVariablesTypes operationResultType
     hasRequiredVariables (Some []) =
   Inr (nl @ nl @ ''/**'' @ nl @
     ''  * Input transformer function for `'' @ operationName @ ''`.'' @ nl @
     ''  * It transforms the fields of the variables into JSON strings.'' @ nl @
     ''  * If the variables contain JSON fields, it will automatically JSON stringify these fields and return a new `variables` object.'' @ nl @
     ''  * If the variables do not conatain any JSON fields, it will return the orignal `variables` object.'' @ nl @
     ''  * If no variables are defined, the function returns `undefined`.'' @ nl @
     ''  * '' @ nl @
     ''  * '' @ ''@returns `undefined`'' @ nl @
     ''  */'' @ nl @
     ''export const '' @ operationName @ ''Input = () => undefined;'')
   \<and> inputImplementation operationName operationVariablesTypes hasRequiredVariables [] =
       ''export const '' @ operationName @ ''Input = () => undefined;''"
  unfolding generateInputTransformer_Nil inputImplementation_Nil inputComment_def
  by (simp only: if_False append_assoc append_Nil append_Nil2 simp_thms)

text \<open>
  Claim C9. Given \<^verbatim>\<open>null\<close> or \<^verbatim>\<open>undefined\<close> for the variables mapping the input
  emitter raises a \<^verbatim>\<open>TypeError\<close>; given any object, the empty one included, it
  returns text. The detector, in contrast, answers false on an absent tree.
\<close>

theorem generateInputTransformer_total_on_objects_only:
  "generateInputTransformer node operationName operationVariablesTypes operationResultType
     hasRequiredVariables None = Inl TypeError
   \<and> (\<exists>text. generateInputTransformer node operationName operationVariablesTypes
          operationResultType hasRequiredVariables (Some vs) = Inr text)
   \<and> (\<exists>text. generateInputTransformer node operationName operationVariablesTypes
          operationResultType hasRequiredVariables (Some []) = Inr text)
   \<and> hasJsonFields None = False"
  unfolding generateInputTransformer_def
  by (simp only: option.case sum.inject simp_thms hasJsonFields.simps)

section \<open>Stripping the markers of an annotated name\<close>

lemma str_includes_single: "str_includes s [c] = (c \<in> set s)"
  by (induction s) auto

lemma str_includes_append_mandatory:
  "str_includes (s @ ''!'') ''[]'' = str_includes s ''[]''"
proof (induction s)
  case Nil
  show ?case by simp
next
  case (Cons x xs)
  then show ?case by (cases xs) auto
qed

lemma str_includes_append_array: "str_includes (s @ ''[]'' @ t) ''[]''"
  by (induction s) auto

lemma dropEnd_append: "length t = n \<Longrightarrow> dropEnd n (s @ t) = s"
  by (simp add: dropEnd_def)

lemma dropEnd_butlast: "dropEnd 1 s = butlast s"
  by (simp add: dropEnd_def butlast_conv_take)

lemma isMandatory_annotatedName:
  "plainName base \<Longrightarrow> isMandatory (annotatedName base array mandatory) = mandatory"
  by (simp add: isMandatory_def annotatedName_def plainName_def str_includes_single)

lemma isArray_annotatedName:
  "plainName base \<Longrightarrow> isArray (annotatedName base array mandatory) = array"
  using str_includes_append_array [of base "''!''"] str_includes_append_array [of base "[]"]
        str_includes_append_mandatory [of base]
  by (simp add: isArray_def annotatedName_def plainName_def)

lemma strippedName_annotatedName:
  "plainName base \<Longrightarrow> strippedName (annotatedName base array mandatory) = base"
proof -
  assume p: "plainName base"
  have m: "isMandatory (annotatedName base array mandatory) = mandatory"
    using p by (rule isMandatory_annotatedName)
  have a: "isArray (annotatedName base array mandatory) = array"
    using p by (rule isArray_annotatedName)
  show ?thesis
    unfolding strippedName_def m a Let_def
    using dropEnd_append [of "''!''" 1 "base @ ''[]''"] dropEnd_append [of "''!''" 1 base]
          dropEnd_append [of "''[]''" 2 base]
    by (cases array; cases mandatory) (simp_all add: annotatedName_def)
qed

text \<open>
  Claim C7. For an annotated name built from a plain base name, the builder recovers
  the flags and the base name: it drops the final character when the key contains
  \<^verbatim>\<open>!\<close>, then the final two characters when the key contains \<^verbatim>\<open>[]\<close>. The child path
  is the given path, a dot and the base name; the array-element variable is the base
  name without its final character, and both appear in the emitted lines. The key
  \<^verbatim>\<open>tags[]!\<close> gives base name \<^verbatim>\<open>tags\<close> with both flags set.
\<close>

theorem annotated_name_stripping:
  assumes "plainName base"
  shows "isMandatory (annotatedName base array mandatory) = mandatory
       \<and> isArray (annotatedName base array mandatory) = array
       \<and> strippedName (annotatedName base array mandatory) = base
       \<and> fieldPath path (annotatedName base array mandatory) = path @ ''.'' @ base
       \<and> fieldNameSingular (annotatedName base array mandatory) = butlast base
       \<and> transformJsonFields [(annotatedName base True mandatory, Object children)] path transformer =
             [base @ '': '' @ path @ ''.'' @ base @ ''?.map(('' @ butlast base @ '') => ({'',
              ''...'' @ butlast base @ '',''] @
             transformJsonFields children (butlast base @ ''?'') transformer @
             [''})),'']
       \<and> strippedName ''tags[]!'' = ''tags'' \<and> isMandatory ''tags[]!'' \<and> isArray ''tags[]!''"
proof -
  have tags: "plainName ''tags''"
    by (simp add: plainName_def)
  have lit: "annotatedName ''tags'' True True = ''tags[]!''"
    by (simp add: annotatedName_def)
  have s: "\<And>a m. strippedName (annotatedName base a m) = base"
    using assms by (rule strippedName_annotatedName)
  have a: "\<And>a m. isArray (annotatedName base a m) = a"
    using assms by (rule isArray_annotatedName)
  have m: "\<And>a m. isMandatory (annotatedName base a m) = m"
    using assms by (rule isMandatory_annotatedName)
  have "strippedName ''tags[]!'' = ''tags'' \<and> isMandatory ''tags[]!'' \<and> isArray ''tags[]!''"
    using strippedName_annotatedName [OF tags, of True True]
          isMandatory_annotatedName [OF tags, of True True]
          isArray_annotatedName [OF tags, of True True]
    unfolding lit by simp
  then show ?thesis
    by (simp add: s a m fieldPath_def fieldNameSingular_def dropEnd_def butlast_conv_take)
qed

text \<open>The same at the key \<^verbatim>\<open>items[]!\<close> with one marked child.\<close>

theorem annotated_name_stripping_witness:
  "plainName ''items''
   \<and> strippedName ''items[]!'' = ''items''
   \<and> fieldNameSingular ''items[]!'' = ''item''
   \<and> fieldPath ''root'' ''items[]!'' = ''root.items''
   \<and> transformJsonFields [(''items[]!'', Object [(''meta'', Scalar ''AWSJSON'')])] ''root'' ''parse'' =
        [''items: root.items?.map((item) => ({'',
         ''...item,'',
         ''meta: item?.meta && JSON.parse(item?.meta as unknown as string),'',
         ''})),'']"
proof -
  have p: "plainName ''items''"
    by (simp add: plainName_def)
  have lit: "annotatedName ''items'' True True = ''items[]!''"
    by (simp add: annotatedName_def)
  show ?thesis
    using annotated_name_stripping [OF p, of True True "''root''"
            "[(''meta'', Scalar ''AWSJSON'')]" "''parse''"] p
    unfolding lit
    by (simp add: strippedName_def isMandatory_def isArray_def fieldPath_def
          fieldNameSingular_def dropEnd_def)
qed

text \<open>
  Claim C6. For a child that is an object and whose key carries the array marker, the
  builder emits a \<^verbatim>\<open>?.map\<close> over the array at the child path, whose callback returns
  a fresh object that spreads the element and continues with the fragments of the
  child's children, built against the element variable followed by \<^verbatim>\<open>?\<close>; the
  fragments of the remaining entries follow.
\<close>

theorem array_object_child:
  assumes "isArray field"
  shows "transformJsonFields ((field, Object children) # rest) path transformer =
           [strippedName field @ '': '' @ path @ ''.'' @ strippedName field @ ''?.map(('' @
              dropEnd 1 (strippedName field) @ '') => ({'',
            ''...'' @ dropEnd 1 (strippedName field) @ '',''] @
           transformJsonFields children (dropEnd 1 (strippedName field) @ ''?'') transformer @
           [''})),''] @
           transformJsonFields rest path transformer"
  using assms by (simp add: fieldPath_def fieldNameSingular_def)

text \<open>The shape \<^verbatim>\<open>{ "items[]": { "meta": "AWSJSON" } }\<close> in the decode direction.\<close>

theorem array_object_child_witness:
  "isArray ''items[]''
   \<and> transformJsonFields [(''items[]'', Object [(''meta'', Scalar ''AWSJSON'')])] ''getNode'' ''parse'' =
        [''items: getNode.items?.map((item) => ({'',
         ''...item,'',
         ''meta: item?.meta && JSON.parse(item?.meta as unknown as string),'',
         ''})),'']"
proof -
  have a: "isArray ''items[]''"
    by (simp add: isArray_def)
  show ?thesis
    using array_object_child [OF a, of "[(''meta'', Scalar ''AWSJSON'')]" "[]" "''getNode''" "''parse''"] a
    by (simp add: strippedName_def isMandatory_def isArray_def fieldPath_def
          fieldNameSingular_def dropEnd_def)
qed

section \<open>The mandatory marker and the key names\<close>

lemma unmarked_cases:
  obtains (marked) name where "field = name @ ''!''" "unmarked field = name"
        | (plain) "unmarked field = field" "field = [] \<or> last field \<noteq> CHR ''!''"
proof (cases "field \<noteq> [] \<and> last field = CHR ''!''")
  case True
  then have "field = butlast field @ ''!''"
    using append_butlast_last_id [of field] by simp
  moreover have "unmarked field = butlast field"
    using True by (simp add: unmarked_def)
  ultimately show ?thesis by (rule marked)
next
  case False
  then show ?thesis by (intro plain) (auto simp: unmarked_def)
qed

lemma isArray_unmarked: "isArray (unmarked field) = isArray field"
proof (cases field rule: unmarked_cases)
  case (marked name)
  then show ?thesis by (simp add: isArray_def str_includes_append_mandatory)
next
  case plain
  then show ?thesis by simp
qed

lemma strippedName_unmarked:
  assumes "markedAtEndOnly field"
  shows "strippedName (unmarked field) = strippedName field"
proof (cases field rule: unmarked_cases)
  case (marked name)
  have n: "\<not> isMandatory name"
    using assms marked by (simp add: markedAtEndOnly_def isMandatory_def)
  have f: "isMandatory (name @ ''!'')"
    by (simp add: isMandatory_def str_includes_single)
  have a: "isArray (name @ ''!'') = isArray name"
    by (simp add: isArray_def str_includes_append_mandatory)
  have d: "dropEnd 1 (name @ ''!'') = name"
    by (simp add: dropEnd_def)
  have u: "unmarked (name @ ''!'') = name"
    using marked by simp
  show ?thesis
    unfolding marked(1) strippedName_def Let_def by (simp only: u n f a d if_True if_False)
next
  case plain
  then show ?thesis by simp
qed

lemma transformJsonFields_dropMandatory:
  "keysWellFormed fs \<Longrightarrow>
     transformJsonFields (dropMandatory fs) path transformer = transformJsonFields fs path transformer"
proof (induction fs arbitrary: path rule: dropMandatory.induct)
  case 1
  show ?case by simp
next
  case (2 field children rest)
  then show ?case
    by (simp add: isArray_unmarked strippedName_unmarked fieldPath_def fieldNameSingular_def)
next
  case (3 field marker rest)
  then show ?case
    by (simp add: strippedName_unmarked fieldPath_def)
qed

lemma hasJsonFields_renameKeys:
  "hasJsonFields (Some (renameKeys f fs)) = hasJsonFields (Some fs)"
proof (induction f fs rule: renameKeys.induct)
  case (1 f)
  show ?case by simp
next
  case (2 f field children rest)
  then show ?case by (simp add: hasJsonFields_Cons fieldValueHasJson_def)
next
  case (3 f field marker rest)
  then show ?case by (simp add: hasJsonFields_Cons fieldValueHasJson_def)
qed

text \<open>
  Claim C10. Two children mappings with well-formed keys that differ only in which keys
  carry the trailing \<^verbatim>\<open>!\<close>, at any depth, give the same fragments for every path and
  direction; in particular replacing a key \<^verbatim>\<open>name!\<close> by \<^verbatim>\<open>name\<close> changes nothing.
  The detector's answer does not change when the keys are renamed.
\<close>

theorem mandatory_marker_and_key_names_irrelevant:
  "(keysWellFormed fs \<and> keysWellFormed fs' \<and> dropMandatory fs = dropMandatory fs' \<longrightarrow>
      transformJsonFields fs path transformer = transformJsonFields fs' path transformer)
   \<and> (\<not> str_includes name ''!'' \<and> keysWellFormed rest \<longrightarrow>
      transformJsonFields ((name @ ''!'', Scalar marker) # rest) path transformer =
      transformJsonFields ((name, Scalar marker) # rest) path transformer)
   \<and> hasJsonFields (Some (renameKeys f fs)) = hasJsonFields (Some fs)"
proof (intro conjI impI)
  assume h: "keysWellFormed fs \<and> keysWellFormed fs' \<and> dropMandatory fs = dropMandatory fs'"
  have a: "transformJsonFields (dropMandatory fs) path transformer =
             transformJsonFields fs path transformer"
    using h by (intro transformJsonFields_dropMandatory) simp
  have b: "transformJsonFields (dropMandatory fs') path transformer =
             transformJsonFields fs' path transformer"
    using h by (intro transformJsonFields_dropMandatory) simp
  have c: "dropMandatory fs = dropMandatory fs'"
    using h by simp
  show "transformJsonFields fs path transformer = transformJsonFields fs' path transformer"
    using a b unfolding c by (rule trans [OF sym])
next
  assume h: "\<not> str_includes name ''!'' \<and> keysWellFormed rest"
  have u1: "unmarked (name @ ''!'') = name"
    by (simp add: unmarked_def)
  have u2: "unmarked name = name"
    using h by (cases name rule: rev_cases) (auto simp: unmarked_def str_includes_single)
  have w1: "keysWellFormed ((name @ ''!'', Scalar marker) # rest)"
    using h by (simp add: markedAtEndOnly_def u1)
  have w2: "keysWellFormed ((name, Scalar marker) # rest)"
    using h by (simp add: markedAtEndOnly_def u2)
  have "transformJsonFields ((name @ ''!'', Scalar marker) # rest) path transformer =
          transformJsonFields (dropMandatory ((name @ ''!'', Scalar marker) # rest)) path transformer"
    using w1 by (simp only: transformJsonFields_dropMandatory)
  also have "dropMandatory ((name @ ''!'', Scalar marker) # rest) =
               dropMandatory ((name, Scalar marker) # rest)"
    by (simp add: u1 u2)
  also have "transformJsonFields (dropMandatory ((name, Scalar marker) # rest)) path transformer =
               transformJsonFields ((name, Scalar marker) # rest) path transformer"
    using w2 by (simp only: transformJsonFields_dropMandatory)
  finally show "transformJsonFields ((name @ ''!'', Scalar marker) # rest) path transformer =
      transformJsonFields ((name, Scalar marker) # rest) path transformer" .
next
  show "hasJsonFields (Some (renameKeys f fs)) = hasJsonFields (Some fs)"
    by (rule hasJsonFields_renameKeys)
qed

text \<open>Two trees that differ in three markers, and a renaming of every key to \<^verbatim>\<open>x\<close>.\<close>

theorem mandatory_marker_and_key_names_irrelevant_witness:
  "keysWellFormed [(''name!'', Scalar ''AWSJSON''), (''items[]!'', Object [(''meta'', Scalar ''AWSJSON'')])]
   \<and> keysWellFormed [(''name'', Scalar ''AWSJSON''), (''items[]'', Object [(''meta!'', Scalar ''AWSJSON'')])]
   \<and> dropMandatory [(''name!'', Scalar ''AWSJSON''), (''items[]!'', Object [(''meta'', Scalar ''AWSJSON'')])] =
       dropMandatory [(''name'', Scalar ''AWSJSON''), (''items[]'', Object [(''meta!'', Scalar ''AWSJSON'')])]
   \<and> transformJsonFields
         [(''name!'', Scalar ''AWSJSON''), (''items[]!'', Object [(''meta'', Scalar ''AWSJSON'')])]
         ''root'' ''parse'' =
       transformJsonFields
         [(''name'', Scalar ''AWSJSON''), (''items[]'', Object [(''meta!'', Scalar ''AWSJSON'')])]
         ''root'' ''parse''
   \<and> \<not> str_includes ''payload'' ''!''
   \<and> transformJsonFields [(''payload!'', Scalar ''AWSJSON'')] ''root'' ''parse'' =
       transformJsonFields [(''payload'', Scalar ''AWSJSON'')] ''root'' ''parse''
   \<and> hasJsonFields (Some (renameKeys (\<lambda>k. ''x'')
         [(''name!'', Scalar ''AWSJSON''), (''items[]!'', Object [(''meta'', Scalar ''AWSJSON'')])])) =
       hasJsonFields (Some
         [(''name!'', Scalar ''AWSJSON''), (''items[]!'', Object [(''meta'', Scalar ''AWSJSON'')])])"
  using mandatory_marker_and_key_names_irrelevant
    [of "[(''name!'', Scalar ''AWSJSON''), (''items[]!'', Object [(''meta'', Scalar ''AWSJSON'')])]"
        "[(''name'', Scalar ''AWSJSON''), (''items[]'', Object [(''meta!'', Scalar ''AWSJSON'')])]"
        "''root''" "''parse''" "''payload''" "[]" "''AWSJSON''" "\<lambda>k. ''x''"]
  by (simp add: markedAtEndOnly_def unmarked_def strippedName_def isMandatory_def isArray_def
        fieldPath_def fieldNameSingular_def dropEnd_def hasJsonFields_Cons hasJsonFields_Nil
        fieldValueHasJson_def)

section \<open>The output emitter\<close>

text \<open>
  Claim C4. When the detector answers false on the output fields, the body of the
  emitted function is the destructured root field cast to the result type name and
  nothing else. When it answers true, the body is the root field, \<^verbatim>\<open>&&\<close>, and a fresh
  object that spreads the root field and continues with the builder's fragments for
  the decode direction, joined by newlines, cast to the result type name. In both cases
  the emitter returns the comment followed by that implementation.
\<close>

theorem output_body:
  "(\<not> hasJsonFields (fields' outputType) \<longrightarrow>
      outputImplementation operationName operationResultType outputType =
        Inr (''export const '' @ operationName @ ''Output = ({ '' @ fieldName outputType @
             '' }: '' @ operationResultType @ '') => '' @
             fieldName outputType @ '' as '' @ typeName outputType @ '';''))
   \<and> (hasJsonFields (fields' outputType) \<longrightarrow>
      (\<exists>fs. fields' outputType = Some fs \<and>
         outputImplementation operationName operationResultType outputType =
           Inr (''export const '' @ operationName @ ''Output = ({ '' @ fieldName outputType @
                '' }: '' @ operationResultType @ '') => '' @
                fieldName outputType @ '' && ({...'' @ fieldName outputType @ '', '' @
                join nl (transformJsonFields fs (fieldName outputType) ''parse'') @
                '' }) as '' @ typeName outputType @ '';'')))
   \<and> (\<exists>implementation.
         outputImplementation operationName operationResultType outputType = Inr implementation \<and>
         generateOutputTransformer node operationName operationVariablesTypes operationResultType
           hasRequiredVariables outputType =
           Inr (nl @ outputComment operationName operationResultType outputType @ nl @
                implementation))"
proof (cases "fields' outputType")
  case None
  then show ?thesis
    unfolding generateOutputTransformer_def outputImplementation_def Let_def
    by (simp only: hasJsonFields.simps if_False sum.case sum.inject simp_thms append_assoc)
next
  case (Some fs)
  show ?thesis
  proof (cases "hasJsonFields (Some fs)")
    case True
    then show ?thesis
      unfolding generateOutputTransformer_def outputImplementation_def Let_def Some
      by (simp only: if_True option.case option.inject sum.case sum.inject simp_thms append_assoc)
  next
    case False
    then show ?thesis
      unfolding generateOutputTransformer_def outputImplementation_def Let_def Some
      by (simp only: if_False option.case option.inject sum.case sum.inject simp_thms append_assoc)
  qed
qed

text \<open>The definitions unfolded to evaluate the emitters at a concrete input.\<close>

lemmas eval_defs = strippedName_def isMandatory_def isArray_def fieldPath_def fieldNameSingular_def
  dropEnd_def hasJsonFields_Cons hasJsonFields_Nil fieldValueHasJson_def

text \<open>
  The shapes \<^verbatim>\<open>{ "status": "String" }\<close> (pass-through cast) and
  \<^verbatim>\<open>{ "payload": "AWSJSON" }\<close> (one override line).
\<close>

theorem output_body_witness:
  "\<not> hasJsonFields (Some [(''status'', Scalar ''String'')])
   \<and> outputImplementation ''GetNode'' ''GetNodeQuery''
         \<lparr>fieldName = ''getNode'', typeName = ''Node'',
          fields' = Some [(''status'', Scalar ''String'')]\<rparr> =
       Inr ''export const GetNodeOutput = ({ getNode }: GetNodeQuery) => getNode as Node;''
   \<and> hasJsonFields (Some [(''payload'', Scalar ''AWSJSON'')])
   \<and> outputImplementation ''GetNode'' ''GetNodeQuery''
         \<lparr>fieldName = ''getNode'', typeName = ''Node'',
          fields' = Some [(''payload'', Scalar ''AWSJSON'')]\<rparr> =
       Inr ''export const GetNodeOutput = ({ getNode }: GetNodeQuery) => getNode && ({...getNode, payload: getNode.payload && JSON.parse(getNode.payload as unknown as string), }) as Node;''"
  using output_body [of "\<lparr>fieldName = ''getNode'', typeName = ''Node'',
                          fields' = Some [(''status'', Scalar ''String'')]\<rparr>"
                       "''GetNode''" "''GetNodeQuery''" "()" "''V''" False]
        output_body [of "\<lparr>fieldName = ''getNode'', typeName = ''Node'',
                          fields' = Some [(''payload'', Scalar ''AWSJSON'')]\<rparr>"
                       "''GetNode''" "''GetNodeQuery''" "()" "''V''" False]
  by (simp add: eval_defs)

section \<open>The input emitter on variables with JSON fields\<close>

text \<open>
  Claim C1. The fragments are meant to be null-safe: the output emitter guards the root
  field with \<^verbatim>\<open>&&\<close>, and below the first level the builder continues every path with
  \<^verbatim>\<open>?\<close>. The input emitter hands the builder the path \<^verbatim>\<open>variables.input\<close> with neither:
  for an optional \<^verbatim>\<open>variables\<close> parameter and the variable \<^verbatim>\<open>input\<close> with one JSON
  field it emits the access \<^verbatim>\<open>variables.input.data\<close>, which dereferences
  \<^verbatim>\<open>variables\<close> and \<^verbatim>\<open>variables.input\<close> unguarded. The output emitter on the same
  fields emits the guarded form.
\<close>

theorem input_root_access_unguarded:
  "inputImplementation ''CreateNode'' ''Vars'' False
     [(''input'', Some [(''data'', Scalar ''AWSJSON'')])] =
     ''export const CreateNodeInput = (variables?: Vars) => ({...variables, input: { data: variables.input.data && JSON.stringify(variables.input.data as unknown as Record<string, any>), }, }) as Vars;''
   \<and> transformJsonFields [(''data'', Scalar ''AWSJSON'')] ''variables.input'' ''stringify'' =
     [''data: variables.input.data && JSON.stringify(variables.input.data as unknown as Record<string, any>),'']
   \<and> outputImplementation ''CreateNode'' ''Result''
       \<lparr>fieldName = ''createNode'', typeName = ''Node'',
        fields' = Some [(''data'', Scalar ''AWSJSON'')]\<rparr> =
     Inr ''export const CreateNodeOutput = ({ createNode }: Result) => createNode && ({...createNode, data: createNode.data && JSON.parse(createNode.data as unknown as string), }) as Node;''"
  by (simp add: inputImplementation_def outputImplementation_def variableOverride_def
        generateQueryVariablesSignature_def eval_defs nl_def)

text \<open>
  Claim C2. Every object the builder constructs spreads the original value first
  (\<^verbatim>\<open>...variables.input,\<close> when \<^verbatim>\<open>input\<close> is a nested object field), and so does the
  output emitter. The per-variable object of the input emitter does not: for the
  variable \<^verbatim>\<open>input\<close> with fields \<^verbatim>\<open>id\<close> and \<^verbatim>\<open>data\<close> the emitted object holds
  the override of \<^verbatim>\<open>data\<close> only, so \<^verbatim>\<open>id\<close> is lost. The fragments of one variable
  are moreover joined by a comma, which leaves \<^verbatim>\<open>,,\<close> between two entries.
\<close>

theorem input_variable_object_without_spread:
  "inputImplementation ''UpdateNode'' ''Vars'' True
     [(''input'', Some [(''id!'', Scalar ''ID''), (''data'', Scalar ''AWSJSON'')])] =
     ''export const UpdateNodeInput = (variables: Vars) => ({...variables, input: { data: variables.input.data && JSON.stringify(variables.input.data as unknown as Record<string, any>), }, }) as Vars;''
   \<and> \<not> str_includes
         (inputImplementation ''UpdateNode'' ''Vars'' True
            [(''input'', Some [(''id!'', Scalar ''ID''), (''data'', Scalar ''AWSJSON'')])])
         ''...variables.input''
   \<and> transformJsonFields [(''input'', Object [(''id!'', Scalar ''ID''), (''data'', Scalar ''AWSJSON'')])]
         ''variables'' ''stringify'' =
       [''input: {'',
        ''...variables.input,'',
        ''data: variables.input?.data && JSON.stringify(variables.input?.data as unknown as Record<string, any>),'',
        ''},'']
   \<and> variableOverride (''input'', Some [(''a'', Scalar ''AWSJSON''), (''b'', Scalar ''AWSJSON'')]) =
       ''input: { a: variables.input.a && JSON.stringify(variables.input.a as unknown as Record<string, any>),,b: variables.input.b && JSON.stringify(variables.input.b as unknown as Record<string, any>), },''"
  by (simp add: inputImplementation_def variableOverride_def
        generateQueryVariablesSignature_def eval_defs nl_def)

end
